theory Spec2Isabelle
  imports Main "HOL-Library.Word" "HOL-Library.AList"
begin

section \<open>Python values, errors and the store\<close>

text \<open>
  The driver \<^verbatim>\<open>siglent_sds1072cml.py\<close> is embedded function by function. Exceptions
  are values of \<open>error\<close>; every function that talks to the instrument takes the session
  and returns it, also when it raises, so that what went over the transport before an
  exception stays visible.
\<close>

datatype error = IndexError | ValueError | KeyError | TypeError | StructError

text \<open>
  The values a trigger configuration holds and a caller may pass as keyword arguments:
  \<^verbatim>\<open>None\<close>, a \<^verbatim>\<open>str\<close>, or a number. Floating point is not interpreted: the type
  \<open>'f\<close> of numbers and the operations on it that the driver uses are parameters.
\<close>

datatype 'f pyval = PNone | Str string | Num 'f

record 'f floats =
  float_parse :: "string \<Rightarrow> 'f option"
  float_eq :: "'f \<Rightarrow> 'f \<Rightarrow> bool"
  float_str :: "'f \<Rightarrow> string"
  float_2e :: "'f \<Rightarrow> string"
  float_of_int :: "int \<Rightarrow> 'f"
  float_mul :: "'f \<Rightarrow> 'f \<Rightarrow> 'f"
  float_sub :: "'f \<Rightarrow> 'f \<Rightarrow> 'f"
  float_add :: "'f \<Rightarrow> 'f \<Rightarrow> 'f"
  float_of_f32 :: "32 word \<Rightarrow> 'f"
  float_of_f64 :: "64 word \<Rightarrow> 'f"

text \<open>
  \<open>float_parse\<close> is \<^verbatim>\<open>float(s)\<close> (\<open>None\<close> where Python raises ValueError),
  \<open>float_eq\<close> is \<^verbatim>\<open>==\<close> on numbers, \<open>float_str\<close> is \<^verbatim>\<open>str(x)\<close>, \<open>float_2e\<close> is
  \<^verbatim>\<open>"%.2e" % x\<close>, \<open>float_of_int\<close> the promotion of an \<^verbatim>\<open>int\<close> operand,
  \<open>float_of_f32\<close> and \<open>float_of_f64\<close> the number with a given IEEE 754 bit pattern.
\<close>

type_synonym byte = "8 word"

type_synonym 'f dict = "(string \<times> 'f pyval) list"

datatype event = Write string | Read string | ReadBytes "byte list"

text \<open>
  Modelled from the spec: the transport (section 6: \<^verbatim>\<open>write(command)\<close>,
  \<^verbatim>\<open>read_formatted_string()\<close>, \<^verbatim>\<open>read_terminated_bytes()\<close>) is an external
  collaborator. The instrument behind it is any state \<open>'d\<close> with a reaction to a written
  command and a reply to each kind of read.
\<close>

record 'd transport =
  dev_write :: "string \<Rightarrow> 'd \<Rightarrow> 'd"
  dev_read :: "'d \<Rightarrow> string \<times> 'd"
  dev_read_bytes :: "'d \<Rightarrow> byte list \<times> 'd"

text \<open>
  The session: the instrument, the trace of what went over the transport, the store of
  dictionary objects, and the two attributes of the trigger channel the code assigns:
  \<^verbatim>\<open>self.triggerConfDict\<close> (a reference into the store) and \<^verbatim>\<open>self.id\<close>.
\<close>

record ('d, 'f) session =
  device :: 'd
  trace :: "event list"
  heap :: "nat \<Rightarrow> 'f dict"
  triggerConfDict :: nat
  trigger_id :: "'f pyval"

definition transport_write :: "'d transport \<Rightarrow> string \<Rightarrow> ('d, 'f) session \<Rightarrow> ('d, 'f) session" where
  "transport_write T cmd s =
     s\<lparr>device := dev_write T cmd (device s), trace := trace s @ [Write cmd]\<rparr>"

definition transport_read :: "'d transport \<Rightarrow> ('d, 'f) session \<Rightarrow> string \<times> ('d, 'f) session" where
  "transport_read T s =
     (let (reply, d) = dev_read T (device s)
      in (reply, s\<lparr>device := d, trace := trace s @ [Read reply]\<rparr>))"

definition read_bytes :: "'d transport \<Rightarrow> ('d, 'f) session \<Rightarrow> byte list \<times> ('d, 'f) session" where
  "read_bytes T s =
     (let (reply, d) = dev_read_bytes T (device s)
      in (reply, s\<lparr>device := d, trace := trace s @ [ReadBytes reply]\<rparr>))"

definition ask :: "'d transport \<Rightarrow> string \<Rightarrow> ('d, 'f) session \<Rightarrow> string \<times> ('d, 'f) session" where
  "ask T cmd s = transport_read T (transport_write T cmd s)"

section \<open>Strings and command templates\<close>

text \<open>\<^verbatim>\<open>v.split(sep, 1)\<close>: one or two parts, split at the first separator.\<close>

definition split1 :: "char \<Rightarrow> string \<Rightarrow> string list" where
  "split1 sep v =
     (if sep \<in> set v
      then [takeWhile (\<lambda>c. c \<noteq> sep) v, tl (dropWhile (\<lambda>c. c \<noteq> sep) v)]
      else [v])"

text \<open>\<^verbatim>\<open>v.split(sep)\<close>: all parts; the empty string gives one empty part.\<close>

fun split_all :: "char \<Rightarrow> string \<Rightarrow> string list" where
  "split_all sep [] = [[]]"
| "split_all sep (c # cs) =
     (if c = sep then [] # split_all sep cs
      else (case split_all sep cs of
              [] \<Rightarrow> [[c]]
            | w # ws \<Rightarrow> (c # w) # ws))"

text \<open>\<^verbatim>\<open>xs[i]\<close> for an index \<open>i \<ge> 0\<close>.\<close>

definition py_index :: "'a list \<Rightarrow> nat \<Rightarrow> error + 'a" where
  "py_index xs i = (if i < length xs then Inr (xs ! i) else Inl IndexError)"

text \<open>\<^verbatim>\<open>s[:-2]\<close>: all but the last two characters (empty when there are fewer).\<close>

definition drop_last2 :: "string \<Rightarrow> string" where
  "drop_last2 s = take (length s - 2) s"

text \<open>
  A command template is a sequence of literal text, \<^verbatim>\<open>%s\<close> places and \<^verbatim>\<open>{ch}\<close>
  places. \<open>percent\<close> is the \<^verbatim>\<open>%\<close> operator on a template with only \<^verbatim>\<open>%s\<close> places.
  Modelled from the spec: \<open>insert_id\<close> is the substitution of the channel id for
  \<^verbatim>\<open>{ch}\<close> that the framework's \<^verbatim>\<open>Channel.write\<close> applies (section 6: "per channel
  ch substituted into templates"), and \<open>channel_write\<close> is that \<^verbatim>\<open>Channel.write\<close>.
\<close>

datatype piece = Lit string | Arg | Ch

fun percent :: "piece list \<Rightarrow> string list \<Rightarrow> piece list" where
  "percent [] args = []"
| "percent (Arg # ps) (a # args) = Lit a # percent ps args"
| "percent (p # ps) args = p # percent ps args"

fun insert_id :: "string \<Rightarrow> piece list \<Rightarrow> string" where
  "insert_id ch [] = []"
| "insert_id ch (Lit s # ps) = s @ insert_id ch ps"
| "insert_id ch (Ch # ps) = ch @ insert_id ch ps"
| "insert_id ch (Arg # ps) = ''%s'' @ insert_id ch ps"

definition channel_write ::
  "'d transport \<Rightarrow> string \<Rightarrow> piece list \<Rightarrow> ('d, 'f) session \<Rightarrow> ('d, 'f) session" where
  "channel_write T ch command s = transport_write T (insert_id ch command) s"

section \<open>Binary unpacking\<close>

text \<open>
  \<^verbatim>\<open>struct.unpack_from(fmt, buffer, offset)\<close> with a format that has no byte-order
  prefix works in native mode: the size of \<^verbatim>\<open>l\<close> is that of a C \<^verbatim>\<open>long\<close> and the
  byte order is the machine's. Both belong to the platform the driver runs on, so they
  are parameters: \<open>sizeof_long\<close> is \<^verbatim>\<open>struct.calcsize("l")\<close> (4 on Windows and on
  32-bit systems, 8 on 64-bit Linux and macOS), \<open>big_endian\<close> is
  \<^verbatim>\<open>sys.byteorder == "big"\<close>. \<^verbatim>\<open>f\<close> has 4 bytes, \<^verbatim>\<open>d\<close> 8 and \<^verbatim>\<open>b\<close> 1 everywhere.
\<close>

record platform =
  sizeof_long :: nat
  big_endian :: bool

text \<open>
  The bytes one item of \<open>sz\<close> bytes is read from, or the \<^verbatim>\<open>struct.error\<close> raised
  when the buffer does not hold them. A negative offset counts from the end of the
  buffer.
\<close>

definition unpack_from_raw :: "nat \<Rightarrow> byte list \<Rightarrow> int \<Rightarrow> error + byte list" where
  "unpack_from_raw sz buffer offset =
     (let len = int (length buffer)
      in if offset < 0 then
           (if offset + int sz > 0 then Inl StructError
            else if offset + len < 0 then Inl StructError
            else Inr (take sz (drop (nat (offset + len)) buffer)))
         else if len - offset < int sz then Inl StructError
         else Inr (take sz (drop (nat offset) buffer)))"

text \<open>The number a byte sequence denotes, least significant byte first.\<close>

fun le_nat :: "byte list \<Rightarrow> nat" where
  "le_nat [] = 0"
| "le_nat (b # bs) = unat b + 256 * le_nat bs"

definition native_nat :: "platform \<Rightarrow> byte list \<Rightarrow> nat" where
  "native_nat P bs = le_nat (if big_endian P then rev bs else bs)"

text \<open>Two's complement reading of an unsigned number of \<open>n\<close> bytes.\<close>

definition signed_of :: "nat \<Rightarrow> nat \<Rightarrow> int" where
  "signed_of n v = (if v < 2 ^ (8 * n - 1) then int v else int v - 2 ^ (8 * n))"

definition unpack_l :: "platform \<Rightarrow> byte list \<Rightarrow> int \<Rightarrow> error + int" where
  "unpack_l P buffer offset =
     (case unpack_from_raw (sizeof_long P) buffer offset of
        Inl e \<Rightarrow> Inl e
      | Inr bs \<Rightarrow> Inr (signed_of (sizeof_long P) (native_nat P bs)))"

definition unpack_f :: "platform \<Rightarrow> 'f floats \<Rightarrow> byte list \<Rightarrow> int \<Rightarrow> error + 'f" where
  "unpack_f P F buffer offset =
     (case unpack_from_raw 4 buffer offset of
        Inl e \<Rightarrow> Inl e
      | Inr bs \<Rightarrow> Inr (float_of_f32 F (of_nat (native_nat P bs))))"

definition unpack_d :: "platform \<Rightarrow> 'f floats \<Rightarrow> byte list \<Rightarrow> int \<Rightarrow> error + 'f" where
  "unpack_d P F buffer offset =
     (case unpack_from_raw 8 buffer offset of
        Inl e \<Rightarrow> Inl e
      | Inr bs \<Rightarrow> Inr (float_of_f64 F (of_nat (native_nat P bs))))"

text \<open>
  \<^verbatim>\<open>struct.unpack_from("%db" % n, buffer, offset)\<close>: \<open>n\<close> signed bytes. A negative
  count gives a format such as \<^verbatim>\<open>"-3b"\<close>, which \<^verbatim>\<open>struct\<close> refuses.
\<close>

definition unpack_b :: "int \<Rightarrow> byte list \<Rightarrow> int \<Rightarrow> error + int list" where
  "unpack_b n buffer offset =
     (if n < 0 then Inl StructError
      else (case unpack_from_raw (nat n) buffer offset of
              Inl e \<Rightarrow> Inl e
            | Inr bs \<Rightarrow> Inr (map sint bs)))"

section \<open>VoltageChannel: descriptor and waveform\<close>

record 'f descriptor =
  numDataPoints :: int
  verticalGain :: 'f
  verticalOffset :: 'f
  horizInterval :: 'f
  horizOffset :: 'f
  descriptorOffset :: int

text \<open>
  \<^verbatim>\<open>VoltageChannel.get_desc\<close>. \<open>ch\<close> is the id of the voltage channel (\<^verbatim>\<open>"1"\<close> or
  \<^verbatim>\<open>"2"\<close>). The five fields are unpacked in the order of the source; the first one the
  buffer is too short for raises.
\<close>

definition get_desc ::
  "'d transport \<Rightarrow> platform \<Rightarrow> 'f floats \<Rightarrow> string \<Rightarrow> ('d, 'f) session
     \<Rightarrow> (error + 'f descriptor) \<times> ('d, 'f) session" where
  "get_desc T P F ch s =
     (let s1 = channel_write T ch [Lit ''C'', Ch, Lit '':WF? DESC''] s;
          (descriptor, s2) = read_bytes T s1;
          offset = 21
      in case unpack_l P descriptor (offset + 60) of
           Inl e \<Rightarrow> (Inl e, s2)
         | Inr n \<Rightarrow>
        (case unpack_f P F descriptor (offset + 156) of
           Inl e \<Rightarrow> (Inl e, s2)
         | Inr vg \<Rightarrow>
        (case unpack_f P F descriptor (offset + 160) of
           Inl e \<Rightarrow> (Inl e, s2)
         | Inr vo \<Rightarrow>
        (case unpack_f P F descriptor (offset + 176) of
           Inl e \<Rightarrow> (Inl e, s2)
         | Inr hi \<Rightarrow>
        (case unpack_d P F descriptor (offset + 180) of
           Inl e \<Rightarrow> (Inl e, s2)
         | Inr ho \<Rightarrow>
             (Inr \<lparr>numDataPoints = n, verticalGain = vg, verticalOffset = vo,
                   horizInterval = hi, horizOffset = ho, descriptorOffset = offset\<rparr>,
              s2))))))"

text \<open>
  \<^verbatim>\<open>VoltageChannel.get_waveform\<close>: the descriptor first, then the samples. The result
  is the pair \<^verbatim>\<open>(timetags, waveform)\<close>.
\<close>

definition get_waveform ::
  "'d transport \<Rightarrow> platform \<Rightarrow> 'f floats \<Rightarrow> string \<Rightarrow> ('d, 'f) session
     \<Rightarrow> (error + 'f list \<times> 'f list) \<times> ('d, 'f) session" where
  "get_waveform T P F ch s =
     (case get_desc T P F ch s of
        (Inl e, s1) \<Rightarrow> (Inl e, s1)
      | (Inr descriptorDictionnary, s1) \<Rightarrow>
          (let s2 = channel_write T ch [Lit ''C'', Ch, Lit '':WF? DAT2''] s1;
               (response, s3) = read_bytes T s2
           in case unpack_b (numDataPoints descriptorDictionnary) response
                     (descriptorOffset descriptorDictionnary) of
                Inl e \<Rightarrow> (Inl e, s3)
              | Inr rawWaveform \<Rightarrow>
                  (let waveform =
                         map (\<lambda>point.
                                float_sub F
                                  (float_mul F (float_of_int F point)
                                     (verticalGain descriptorDictionnary))
                                  (verticalOffset descriptorDictionnary))
                             rawWaveform;
                       timetags =
                         map (\<lambda>i.
                                float_add F
                                  (float_mul F (float_of_int F (int i))
                                     (horizInterval descriptorDictionnary))
                                  (horizOffset descriptorDictionnary))
                             [0..<length rawWaveform]
                   in (Inr (timetags, waveform), s3))))"

section \<open>SDS1072CML: status, readiness, arm\<close>

text \<open>
  Modelled from the spec: \<^verbatim>\<open>Instrument.control(get_command, None, ..., get_process)\<close>
  is the framework's property accessor. Reading the property writes the get command,
  reads one formatted reply and applies \<^verbatim>\<open>get_process\<close> to it.

  \<^verbatim>\<open>is_ready\<close>: \<^verbatim>\<open>True if (v.split(" ", 1)[-1] in ["Stop", "Ready", "Armed"]) else False\<close>.
\<close>

definition is_ready_get_process :: "string \<Rightarrow> bool" where
  "is_ready_get_process v = (last (split1 CHR '' '' v) \<in> set [''Stop'', ''Ready'', ''Armed''])"

definition is_ready :: "'d transport \<Rightarrow> ('d, 'f) session \<Rightarrow> bool \<times> ('d, 'f) session" where
  "is_ready T s = (let (v, s1) = ask T ''SAST?'' s in (is_ready_get_process v, s1))"

definition arm :: "'d transport \<Rightarrow> ('d, 'f) session \<Rightarrow> bool \<times> ('d, 'f) session" where
  "arm T s =
     (let (ready, s1) = is_ready T s
      in if ready then (True, transport_write T ''ARM'' s1) else (False, s1))"

section \<open>TriggerChannel: dictionaries\<close>

text \<open>\<^verbatim>\<open>a == b\<close> on values; \<^verbatim>\<open>a != b\<close> is its negation.\<close>

fun py_eq :: "'f floats \<Rightarrow> 'f pyval \<Rightarrow> 'f pyval \<Rightarrow> bool" where
  "py_eq F PNone PNone = True"
| "py_eq F (Str a) (Str b) = (a = b)"
| "py_eq F (Num a) (Num b) = float_eq F a b"
| "py_eq F a b = False"

text \<open>\<^verbatim>\<open>str(v)\<close>, which is what \<^verbatim>\<open>%s\<close> and \<^verbatim>\<open>{ch}\<close> print.\<close>

fun py_str :: "'f floats \<Rightarrow> 'f pyval \<Rightarrow> string" where
  "py_str F PNone = ''None''"
| "py_str F (Str s) = s"
| "py_str F (Num x) = float_str F x"

text \<open>
  A dictionary is an association list with one entry per key, in insertion order.
  \<open>dict_get\<close> is \<^verbatim>\<open>d.get(k)\<close>, \<open>dict_item\<close> is \<^verbatim>\<open>d[k]\<close>, \<open>dict_set\<close> is
  \<^verbatim>\<open>d[k] = v\<close> and \<open>dict_update\<close> is \<^verbatim>\<open>d.update(other)\<close>.
\<close>

definition dict_get :: "'f dict \<Rightarrow> string \<Rightarrow> 'f pyval" where
  "dict_get d k = (case map_of d k of None \<Rightarrow> PNone | Some v \<Rightarrow> v)"

definition dict_item :: "'f dict \<Rightarrow> string \<Rightarrow> error + 'f pyval" where
  "dict_item d k = (case map_of d k of None \<Rightarrow> Inl KeyError | Some v \<Rightarrow> Inr v)"

definition dict_set :: "string \<Rightarrow> 'f pyval \<Rightarrow> 'f dict \<Rightarrow> 'f dict" where
  "dict_set k v d = AList.update k v d"

definition dict_update :: "'f dict \<Rightarrow> 'f dict \<Rightarrow> 'f dict" where
  "dict_update d other = fold (\<lambda>(k, v). dict_set k v) other d"

text \<open>
  \<^verbatim>\<open>a == b\<close> on two dictionary objects of the store. CPython compares the values
  under a key by identity before it calls \<^verbatim>\<open>==\<close>, so an object compared with itself
  is equal whatever it holds; two different objects are compared key by key.
\<close>

definition dict_eq :: "'f floats \<Rightarrow> 'f dict \<Rightarrow> 'f dict \<Rightarrow> bool" where
  "dict_eq F a b =
     (set (map fst a) = set (map fst b) \<and>
      list_all (\<lambda>k. py_eq F (dict_get a k) (dict_get b k)) (map fst a))"

definition dict_eq_ref :: "'f floats \<Rightarrow> (nat \<Rightarrow> 'f dict) \<Rightarrow> nat \<Rightarrow> nat \<Rightarrow> bool" where
  "dict_eq_ref F h a b = (if a = b then True else dict_eq F (h a) (h b))"

section \<open>TriggerChannel: the five measurements\<close>

text \<open>
  Modelled from the spec: \<^verbatim>\<open>Channel.measurement(get_command, preprocess_reply,
  get_process)\<close> is the framework's property accessor (sections 2 and 4.3). Reading the
  property writes the get command through \<^verbatim>\<open>Channel.write\<close>, reads one formatted
  reply, applies \<^verbatim>\<open>preprocess_reply\<close> and hands \<^verbatim>\<open>get_process\<close> the reply: split at
  the commas for \<^verbatim>\<open>TRSE?\<close>, whose \<^verbatim>\<open>get_process\<close> indexes tokens, and whole for the
  other four. The \<^verbatim>\<open>preprocess_reply\<close> and \<^verbatim>\<open>get_process\<close> functions themselves are
  the lambdas of the source.
\<close>

definition channel_ask ::
  "'d transport \<Rightarrow> string \<Rightarrow> piece list \<Rightarrow> ('d, 'f) session \<Rightarrow> string \<times> ('d, 'f) session" where
  "channel_ask T ch command s = transport_read T (channel_write T ch command s)"

text \<open>\<^verbatim>\<open>preprocess_reply=lambda v: v.split(" ", 1)[1]\<close>\<close>

definition trigger_setup_preprocess_reply :: "string \<Rightarrow> error + string" where
  "trigger_setup_preprocess_reply v = py_index (split1 CHR '' '' v) 1"

text \<open>
  \<^verbatim>\<open>get_process=lambda v: {"type": v[0], "source": v[2], "hold_type": v[4],
  "hold_value1": v[6]}\<close>
\<close>

definition trigger_setup_get_process :: "string list \<Rightarrow> error + 'f dict" where
  "trigger_setup_get_process v =
     (case py_index v 0 of Inl e \<Rightarrow> Inl e | Inr v0 \<Rightarrow>
     (case py_index v 2 of Inl e \<Rightarrow> Inl e | Inr v2 \<Rightarrow>
     (case py_index v 4 of Inl e \<Rightarrow> Inl e | Inr v4 \<Rightarrow>
     (case py_index v 6 of Inl e \<Rightarrow> Inl e | Inr v6 \<Rightarrow>
        Inr [(''type'', Str v0), (''source'', Str v2),
             (''hold_type'', Str v4), (''hold_value1'', Str v6)]))))"

definition trigger_setup ::
  "'d transport \<Rightarrow> 'f floats \<Rightarrow> ('d, 'f) session \<Rightarrow> (error + 'f dict) \<times> ('d, 'f) session" where
  "trigger_setup T F s =
     (let (reply, s1) = channel_ask T (py_str F (trigger_id s)) [Lit ''TRSE?''] s
      in case trigger_setup_preprocess_reply reply of
           Inl e \<Rightarrow> (Inl e, s1)
         | Inr v \<Rightarrow> (trigger_setup_get_process (split_all CHR '','' v), s1))"

text \<open>
  \<^verbatim>\<open>get_process=lambda v: {"source": v.split(":", 1)[0],
  "level": float(v.split(" ", 1)[-1][:-2])}\<close>
\<close>

definition trigger_level_get_process :: "'f floats \<Rightarrow> string \<Rightarrow> error + 'f dict" where
  "trigger_level_get_process F v =
     (case float_parse F (drop_last2 (last (split1 CHR '' '' v))) of
        None \<Rightarrow> Inl ValueError
      | Some x \<Rightarrow> Inr [(''source'', Str (hd (split1 CHR '':'' v))), (''level'', Num x)])"

definition trigger_level ::
  "'d transport \<Rightarrow> 'f floats \<Rightarrow> ('d, 'f) session \<Rightarrow> (error + 'f dict) \<times> ('d, 'f) session" where
  "trigger_level T F s =
     (let (reply, s1) = channel_ask T (py_str F (trigger_id s)) [Lit ''TRLV?''] s
      in (trigger_level_get_process F reply, s1))"

text \<open>
  \<^verbatim>\<open>get_process=lambda v: {"source": v.split(":", 1)[0], "slope": v.split(" ", 1)[-1]}\<close>
\<close>

definition trigger_slope_get_process :: "string \<Rightarrow> 'f dict" where
  "trigger_slope_get_process v =
     [(''source'', Str (hd (split1 CHR '':'' v))), (''slope'', Str (last (split1 CHR '' '' v)))]"

definition trigger_slope ::
  "'d transport \<Rightarrow> 'f floats \<Rightarrow> ('d, 'f) session \<Rightarrow> (error + 'f dict) \<times> ('d, 'f) session" where
  "trigger_slope T F s =
     (let (reply, s1) = channel_ask T (py_str F (trigger_id s)) [Lit ''TRSL?''] s
      in (Inr (trigger_slope_get_process reply), s1))"

text \<open>\<^verbatim>\<open>get_process=lambda v: {"mode": v.split(" ", 1)[-1]}\<close>\<close>

definition trigger_mode_get_process :: "string \<Rightarrow> 'f dict" where
  "trigger_mode_get_process v = [(''mode'', Str (last (split1 CHR '' '' v)))]"

definition trigger_mode ::
  "'d transport \<Rightarrow> 'f floats \<Rightarrow> ('d, 'f) session \<Rightarrow> (error + 'f dict) \<times> ('d, 'f) session" where
  "trigger_mode T F s =
     (let (reply, s1) = channel_ask T (py_str F (trigger_id s)) [Lit ''TRMD?''] s
      in (Inr (trigger_mode_get_process reply), s1))"

text \<open>
  \<^verbatim>\<open>get_process=lambda v: {"source": v.split(":", 1)[0], "coupling": v.split(" ", 1)[-1]}\<close>
\<close>

definition trigger_coupling_get_process :: "string \<Rightarrow> 'f dict" where
  "trigger_coupling_get_process v =
     [(''source'', Str (hd (split1 CHR '':'' v))),
      (''coupling'', Str (last (split1 CHR '' '' v)))]"

definition trigger_coupling ::
  "'d transport \<Rightarrow> 'f floats \<Rightarrow> ('d, 'f) session \<Rightarrow> (error + 'f dict) \<times> ('d, 'f) session" where
  "trigger_coupling T F s =
     (let (reply, s1) = channel_ask T (py_str F (trigger_id s)) [Lit ''TRCP?''] s
      in (Inr (trigger_coupling_get_process reply), s1))"

section \<open>TriggerChannel: reading the configuration\<close>

text \<open>
  \<^verbatim>\<open>self.triggerConfDict.update(d)\<close>: the dictionary object that the attribute refers
  to is changed in place.
\<close>

definition cache_update :: "'f dict \<Rightarrow> ('d, 'f) session \<Rightarrow> ('d, 'f) session" where
  "cache_update d s =
     s\<lparr>heap := (heap s)(triggerConfDict s := dict_update (heap s (triggerConfDict s)) d)\<rparr>"

text \<open>
  \<^verbatim>\<open>TriggerChannel.get_triggerConfig\<close>. It returns \<^verbatim>\<open>self.triggerConfDict\<close>: a
  reference to the dictionary object, not a copy of it.
\<close>

definition get_triggerConfig ::
  "'d transport \<Rightarrow> 'f floats \<Rightarrow> ('d, 'f) session \<Rightarrow> (error + nat) \<times> ('d, 'f) session" where
  "get_triggerConfig T F s =
     (case trigger_setup T F s of (Inl e, s1) \<Rightarrow> (Inl e, s1) | (Inr d1, s1) \<Rightarrow>
     (case trigger_level T F (cache_update d1 s1) of (Inl e, s2) \<Rightarrow> (Inl e, s2) | (Inr d2, s2) \<Rightarrow>
     (case trigger_slope T F (cache_update d2 s2) of (Inl e, s3) \<Rightarrow> (Inl e, s3) | (Inr d3, s3) \<Rightarrow>
     (case trigger_mode T F (cache_update d3 s3) of (Inl e, s4) \<Rightarrow> (Inl e, s4) | (Inr d4, s4) \<Rightarrow>
     (case trigger_coupling T F (cache_update d4 s4) of (Inl e, s5) \<Rightarrow> (Inl e, s5) | (Inr d5, s5) \<Rightarrow>
        (Inr (triggerConfDict s5), cache_update d5 s5))))))"

section \<open>TriggerChannel: writing the configuration\<close>

text \<open>
  The three tables of \<^verbatim>\<open>set_triggerConfig\<close> share their five keys, which are the
  constructors of \<open>group\<close>. \<open>setValues\<close> keeps the order of the source, which is the
  order \<^verbatim>\<open>for key in setValues\<close> visits.
\<close>

datatype group = Setup | Level | Coupling | Slope | Mode

text \<open>
  \<^verbatim>\<open>setProcesses\<close>: the value or tuple of values handed to \<^verbatim>\<open>%\<close>.
  \<^verbatim>\<open>"%.2eV" % x\<close> raises TypeError unless \<open>x\<close> is a number.
\<close>

fun setProcesses :: "'f floats \<Rightarrow> group \<Rightarrow> 'f dict \<Rightarrow> error + 'f pyval list" where
  "setProcesses F Setup dictIn =
     Inr [dict_get dictIn ''type'', dict_get dictIn ''hold_type'', dict_get dictIn ''hold_value1'']"
| "setProcesses F Level dictIn =
     (case dict_get dictIn ''level'' of
        Num x \<Rightarrow> Inr [Str (float_2e F x @ ''V'')]
      | _ \<Rightarrow> Inl TypeError)"
| "setProcesses F Coupling dictIn = Inr [dict_get dictIn ''coupling'']"
| "setProcesses F Slope dictIn = Inr [dict_get dictIn ''slope'']"
| "setProcesses F Mode dictIn = Inr [dict_get dictIn ''mode'']"

fun setCommands :: "group \<Rightarrow> piece list" where
  "setCommands Setup = [Lit ''TRSE '', Arg, Lit '',SR,'', Ch, Lit '',HT,'', Arg, Lit '',HV,'', Arg]"
| "setCommands Level = [Ch, Lit '':TRLV '', Arg]"
| "setCommands Coupling = [Ch, Lit '':TRCP '', Arg]"
| "setCommands Slope = [Ch, Lit '':TRSL '', Arg]"
| "setCommands Mode = [Lit ''TRMD '', Arg]"

definition setValues :: "(group \<times> string list) list" where
  "setValues =
     [(Setup, [''source'', ''type'', ''hold_type'', ''hold_value1'']),
      (Level, [''level'']),
      (Coupling, [''coupling'']),
      (Slope, [''slope'']),
      (Mode, [''mode''])]"

text \<open>
  \<^verbatim>\<open>[key for key in kwargs if triggerConfDict[key] != kwargs[key]]\<close>. The keyword
  arguments are the list of their (key, value) pairs in the order of the call; their
  keys are distinct, so \<^verbatim>\<open>kwargs[key]\<close> is the value listed with the key. A key that the
  configuration does not hold raises KeyError.
\<close>

fun changedValues :: "'f floats \<Rightarrow> 'f dict \<Rightarrow> 'f dict \<Rightarrow> error + string list" where
  "changedValues F conf [] = Inr []"
| "changedValues F conf ((key, v) # kwargs) =
     (case dict_item conf key of
        Inl e \<Rightarrow> Inl e
      | Inr c \<Rightarrow>
          (case changedValues F conf kwargs of
             Inl e \<Rightarrow> Inl e
           | Inr keys \<Rightarrow> Inr (if py_eq F c v then keys else key # keys)))"

text \<open>
  \<^verbatim>\<open>[key for key in setValues if any([value in changedValues for value in
  setValues[key]])]\<close>
\<close>

definition processToChange :: "string list \<Rightarrow> group list" where
  "processToChange changed =
     map fst (filter (\<lambda>(key, vals). list_ex (\<lambda>v. v \<in> set changed) vals) setValues)"

text \<open>
  \<^verbatim>\<open>for changedKey in changedValues: triggerConfDict[changedKey] = kwargs[changedKey]\<close>,
  on the dictionary object at reference \<open>r\<close>.
\<close>

definition apply_changes :: "nat \<Rightarrow> 'f dict \<Rightarrow> string list \<Rightarrow> ('d, 'f) session \<Rightarrow> ('d, 'f) session" where
  "apply_changes r kwargs changed s =
     s\<lparr>heap := (heap s)(r := fold (\<lambda>k. dict_set k (dict_get kwargs k)) changed (heap s r))\<rparr>"

text \<open>
  \<^verbatim>\<open>for processKey in processToChange: self.write(setCommands[processKey] %
  setProcesses[processKey](triggerConfDict))\<close>. \<^verbatim>\<open>self.write\<close> is \<^verbatim>\<open>Channel.write\<close>,
  which puts \<^verbatim>\<open>self.id\<close> in the place of \<^verbatim>\<open>{ch}\<close>.
\<close>

definition set_command :: "'f floats \<Rightarrow> group \<Rightarrow> 'f dict \<Rightarrow> error + piece list" where
  "set_command F processKey conf =
     (case setProcesses F processKey conf of
        Inl e \<Rightarrow> Inl e
      | Inr args \<Rightarrow> Inr (percent (setCommands processKey) (map (py_str F) args)))"

fun write_commands ::
  "'d transport \<Rightarrow> 'f floats \<Rightarrow> nat \<Rightarrow> group list \<Rightarrow> ('d, 'f) session
     \<Rightarrow> (error + unit) \<times> ('d, 'f) session" where
  "write_commands T F r [] s = (Inr (), s)"
| "write_commands T F r (processKey # todo) s =
     (case set_command F processKey (heap s r) of
        Inl e \<Rightarrow> (Inl e, s)
      | Inr command \<Rightarrow>
          write_commands T F r todo (channel_write T (py_str F (trigger_id s)) command s))"

text \<open>
  \<^verbatim>\<open>TriggerChannel.set_triggerConfig(**kwargs)\<close>. The local variable
  \<^verbatim>\<open>triggerConfDict\<close> holds the reference that \<^verbatim>\<open>get_triggerConfig\<close> returned; the
  last two lines assign the reference returned by the second read to
  \<^verbatim>\<open>self.triggerConfDict\<close> and compare the two objects.
\<close>

definition set_triggerConfig ::
  "'d transport \<Rightarrow> 'f floats \<Rightarrow> 'f dict \<Rightarrow> ('d, 'f) session \<Rightarrow> (error + bool) \<times> ('d, 'f) session" where
  "set_triggerConfig T F kwargs s =
     (case get_triggerConfig T F s of
        (Inl e, s1) \<Rightarrow> (Inl e, s1)
      | (Inr r, s1) \<Rightarrow>
          (let s2 = (if dict_get kwargs ''source'' \<noteq> PNone
                     then s1\<lparr>trigger_id := dict_get kwargs ''source''\<rparr>
                     else s1)
           in case changedValues F (heap s2 r) kwargs of
                Inl e \<Rightarrow> (Inl e, s2)
              | Inr changed \<Rightarrow>
                  (case write_commands T F r (processToChange changed)
                          (apply_changes r kwargs changed s2) of
                     (Inl e, s4) \<Rightarrow> (Inl e, s4)
                   | (Inr u, s4) \<Rightarrow>
                       (case get_triggerConfig T F s4 of
                          (Inl e, s5) \<Rightarrow> (Inl e, s5)
                        | (Inr r', s5) \<Rightarrow>
                            (let s6 = s5\<lparr>triggerConfDict := r'\<rparr>
                             in (Inr (dict_eq_ref F (heap s6) (triggerConfDict s6) r), s6))))))"

section \<open>Instances for concrete runs\<close>

text \<open>
  A scripted instrument, as in a protocol test: it ignores what is written and answers
  each read with the next reply of its script.
\<close>

definition script :: "(string list \<times> byte list list) transport" where
  "script =
     \<lparr>dev_write = (\<lambda>cmd d. d),
      dev_read = (\<lambda>(rs, bs). case rs of [] \<Rightarrow> ([], (rs, bs)) | r # rs' \<Rightarrow> (r, (rs', bs))),
      dev_read_bytes = (\<lambda>(rs, bs). case bs of [] \<Rightarrow> ([], (rs, bs)) | b # bs' \<Rightarrow> (b, (rs, bs')))\<rparr>"

text \<open>
  The session of a new driver object: nothing sent yet, the class attribute
  \<^verbatim>\<open>triggerConfDict = {}\<close> at reference 0, and the trigger channel's id \<^verbatim>\<open>""\<close>, as
  \<^verbatim>\<open>Instrument.ChannelCreator(TriggerChannel, "")\<close> gives it.
\<close>

definition new_session :: "'d \<Rightarrow> ('d, 'f) session" where
  "new_session d =
     \<lparr>device = d, trace = [], heap = (\<lambda>a. []), triggerConfDict = 0, trigger_id = Str []\<rparr>"

text \<open>
  Two number systems for concrete runs. In \<open>text_floats\<close> a number is the text it was
  read from; in \<open>int_floats\<close> numbers are integers and a bit pattern denotes its signed
  value.
\<close>

definition text_floats :: "string floats" where
  "text_floats =
     \<lparr>float_parse = (\<lambda>s. if s = [] then None else Some s),
      float_eq = (\<lambda>a b. a = b),
      float_str = (\<lambda>x. x),
      float_2e = (\<lambda>x. x),
      float_of_int = (\<lambda>i. []),
      float_mul = (\<lambda>a b. a),
      float_sub = (\<lambda>a b. a),
      float_add = (\<lambda>a b. a),
      float_of_f32 = (\<lambda>w. []),
      float_of_f64 = (\<lambda>w. [])\<rparr>"

definition int_floats :: "int floats" where
  "int_floats =
     \<lparr>float_parse = (\<lambda>s. None),
      float_eq = (\<lambda>a b. a = b),
      float_str = (\<lambda>x. []),
      float_2e = (\<lambda>x. []),
      float_of_int = (\<lambda>i. i),
      float_mul = (\<lambda>a b. a * b),
      float_sub = (\<lambda>a b. a - b),
      float_add = (\<lambda>a b. a + b),
      float_of_f32 = sint,
      float_of_f64 = sint\<rparr>"

definition lp64 :: platform where
  "lp64 = \<lparr>sizeof_long = 8, big_endian = False\<rparr>"

definition llp64 :: platform where
  "llp64 = \<lparr>sizeof_long = 4, big_endian = False\<rparr>"

text \<open>The writes of a trace, in order.\<close>

fun writes :: "event list \<Rightarrow> string list" where
  "writes [] = []"
| "writes (Write c # es) = c # writes es"
| "writes (e # es) = writes es"

text \<open>Two scopes for \<^verbatim>\<open>arm()\<close>: one that reports \<^verbatim>\<open>Stop\<close> and one that reports \<^verbatim>\<open>Trig'd\<close>.\<close>

definition scope_stopped :: "(string list \<times> byte list list, string) session" where
  "scope_stopped = new_session ([''SAST Stop''], [])"

definition scope_triggered :: "(string list \<times> byte list list, string) session" where
  "scope_triggered = new_session ([''SAST Trig'd''], [])"

text \<open>
  A descriptor reply of 209 bytes (numDataPoints 3, verticalGain 2, verticalOffset 1,
  horizInterval 10, horizOffset -5, the four bytes after numDataPoints zero), a samples
  reply with the raw codes -128, 0 and 127 after a 21-byte preamble, and the session of a
  new driver facing an instrument that sends the two.
\<close>

definition desc_reply :: "byte list" where
  "desc_reply =
     replicate 81 0 @ [3, 0, 0, 0] @ [0, 0, 0, 0] @ replicate 88 0 @
     [2, 0, 0, 0] @ [1, 0, 0, 0] @ replicate 12 0 @ [10, 0, 0, 0] @
     [251, 255, 255, 255, 255, 255, 255, 255]"

definition samples_reply :: "byte list" where
  "samples_reply = replicate 21 0 @ [128, 0, 127]"

definition wf_session :: "(string list \<times> byte list list, int) session" where
  "wf_session = new_session ([], [desc_reply, samples_reply])"

text \<open>
  The same descriptor reply with numDataPoints 1 and a 1 in the first of the four bytes
  that follow it (the field at +64), and a descriptor reply that is too short.
\<close>

definition desc_reply_next_field :: "byte list" where
  "desc_reply_next_field =
     replicate 81 0 @ [1, 0, 0, 0] @ [1, 0, 0, 0] @ replicate 88 0 @
     [2, 0, 0, 0] @ [1, 0, 0, 0] @ replicate 12 0 @ [10, 0, 0, 0] @
     [251, 255, 255, 255, 255, 255, 255, 255]"

definition short_session :: "(string list \<times> byte list list, int) session" where
  "short_session = new_session ([], [replicate 100 0, samples_reply])"

text \<open>The five queries of a configuration read, and the eight keys it fills.\<close>

definition queries :: "string list" where
  "queries = [''TRSE?'', ''TRLV?'', ''TRSL?'', ''TRMD?'', ''TRCP?'']"

definition config_keys :: "string list" where
  "config_keys =
     [''type'', ''source'', ''hold_type'', ''hold_value1'', ''level'', ''slope'', ''mode'',
      ''coupling'']"

text \<open>
  Sessions of a new driver for the trigger channel. \<open>replies\<close> are the replies of an
  instrument in the state type EDGE, source C1, hold type TI, hold value 100NS, level
  1.50E-01, slope POS, mode AUTO, coupling DC. \<open>mixed_session\<close> faces an instrument
  whose three per-channel replies name three different channels.
\<close>

definition replies :: "string list" where
  "replies =
     [''TRSE EDGE,SR,C1,HT,TI,HV,100NS'', ''C1:TRLV 1.50E-01 V'', ''C1:TRSL POS'',
      ''TRMD AUTO'', ''C1:TRCP DC'']"


text \<open>The text of the set command of a group, for a channel id and a configuration.\<close>

definition command_text :: "'f floats \<Rightarrow> string \<Rightarrow> 'f dict \<Rightarrow> group \<Rightarrow> string" where
  "command_text F ch conf g =
     (case set_command F g conf of Inl e \<Rightarrow> [] | Inr command \<Rightarrow> insert_id ch command)"

text \<open>
  \<open>ignoring_session\<close>: the instrument answers the read after the write with the same
  replies as before, as one that ignores what was written. \<open>adopting_session\<close>: after
  the write it reports the type SLEW.
\<close>

definition ignoring_session :: "(string list \<times> byte list list, string) session" where
  "ignoring_session = new_session (replies @ replies, [])"

definition adopting_session :: "(string list \<times> byte list list, string) session" where
  "adopting_session =
     new_session
       (replies @
        [''TRSE SLEW,SR,C1,HT,TI,HV,100NS'', ''C1:TRLV 1.50E-01 V'', ''C1:TRSL POS'',
         ''TRMD AUTO'', ''C1:TRCP DC''], [])"

section \<open>Lemmas on the transport\<close>

lemma writes_append: "writes (xs @ ys) = writes xs @ writes ys"
  by (induction xs rule: writes.induct) simp_all

lemma split1_nonempty: "split1 sep v \<noteq> []"
  by (simp add: split1_def)

lemma ask_eq:
  "ask T cmd s =
     (fst (dev_read T (dev_write T cmd (device s))),
      s\<lparr>device := snd (dev_read T (dev_write T cmd (device s))),
        trace := trace s @ [Write cmd, Read (fst (dev_read T (dev_write T cmd (device s))))]\<rparr>)"
  by (simp add: ask_def transport_read_def transport_write_def split_beta)

section \<open>The arm guard\<close>

text \<open>
  C8. \<^verbatim>\<open>arm()\<close> writes \<^verbatim>\<open>SAST?\<close> and reads the status. It returns whether the status
  (the reply after its first space) is one of Stop, Ready, Armed. When it is not, nothing
  more is written; when it is, \<^verbatim>\<open>ARM\<close> is written once and nothing is read after it, so
  the result does not depend on what the instrument does with the command. This holds
  for every instrument \<open>T\<close>.
\<close>

theorem arm_guard:
  "let reply = fst (dev_read T (dev_write T ''SAST?'' (device s)));
       ready = (last (split1 CHR '' '' reply) \<in> {''Stop'', ''Ready'', ''Armed''})
   in fst (arm T s) = ready \<and>
      trace (snd (arm T s)) =
        trace s @ [Write ''SAST?'', Read reply] @ (if ready then [Write ''ARM''] else [])"
  by (simp add: arm_def is_ready_def is_ready_get_process_def ask_eq transport_write_def Let_def)

theorem arm_guard_witness:
  "fst (arm script scope_stopped) = True \<and>
   trace (snd (arm script scope_stopped)) = [Write ''SAST?'', Read ''SAST Stop'', Write ''ARM''] \<and>
   fst (arm script scope_triggered) = False \<and>
   trace (snd (arm script scope_triggered)) = [Write ''SAST?'', Read ''SAST Trig'd'']"
  using arm_guard [of script scope_stopped] arm_guard [of script scope_triggered]
  by (simp add: scope_stopped_def scope_triggered_def new_session_def script_def split1_def Let_def)

lemma read_bytes_eq:
  "read_bytes T s =
     (fst (dev_read_bytes T (device s)),
      s\<lparr>device := snd (dev_read_bytes T (device s)),
        trace := trace s @ [ReadBytes (fst (dev_read_bytes T (device s)))]\<rparr>)"
  by (simp add: read_bytes_def split_beta)

lemma channel_write_eq:
  "channel_write T ch command s =
     s\<lparr>device := dev_write T (insert_id ch command) (device s),
       trace := trace s @ [Write (insert_id ch command)]\<rparr>"
  by (simp add: channel_write_def transport_write_def)

section \<open>The descriptor\<close>

lemma unpack_from_raw_in_range:
  "0 \<le> offset \<Longrightarrow> offset + int sz \<le> int (length buffer) \<Longrightarrow>
   unpack_from_raw sz buffer offset = Inr (take sz (drop (nat offset) buffer))"
  by (simp add: unpack_from_raw_def Let_def)

lemma get_desc_session:
  "snd (get_desc T P F ch s) =
     s\<lparr>device := snd (dev_read_bytes T (dev_write T (''C'' @ ch @ '':WF? DESC'') (device s))),
       trace := trace s @
         [Write (''C'' @ ch @ '':WF? DESC''),
          ReadBytes (fst (dev_read_bytes T (dev_write T (''C'' @ ch @ '':WF? DESC'') (device s))))]\<rparr>"
  by (simp add: get_desc_def read_bytes_eq channel_write_eq Let_def split: sum.splits)

lemma get_desc_offset:
  "fst (get_desc T P F ch s) = Inr d \<Longrightarrow> descriptorOffset d = 21"
  by (auto simp add: get_desc_def read_bytes_eq channel_write_eq Let_def split: sum.splits)

text \<open>
  What \<^verbatim>\<open>get_desc\<close> decodes from a reply of at least 209 bytes, on any platform: the
  number of data points from \<open>sizeof_long\<close> bytes at 21 + 60, the three floats from 4
  bytes each at 21 + 156, 21 + 160 and 21 + 176, the double from 8 bytes at 21 + 180.
\<close>

lemma get_desc_value:
  assumes "sizeof_long P \<le> 8"
    and "209 \<le> length descriptor"
    and "descriptor = fst (dev_read_bytes T (dev_write T (''C'' @ ch @ '':WF? DESC'') (device s)))"
  shows "fst (get_desc T P F ch s) =
     Inr \<lparr>numDataPoints =
            signed_of (sizeof_long P) (native_nat P (take (sizeof_long P) (drop 81 descriptor))),
          verticalGain = float_of_f32 F (of_nat (native_nat P (take 4 (drop 177 descriptor)))),
          verticalOffset = float_of_f32 F (of_nat (native_nat P (take 4 (drop 181 descriptor)))),
          horizInterval = float_of_f32 F (of_nat (native_nat P (take 4 (drop 197 descriptor)))),
          horizOffset = float_of_f64 F (of_nat (native_nat P (take 8 (drop 201 descriptor)))),
          descriptorOffset = 21\<rparr>"
  using assms
  by (simp add: get_desc_def read_bytes_eq channel_write_eq Let_def unpack_l_def unpack_f_def
      unpack_d_def unpack_from_raw_in_range)

text \<open>
  Where a C \<^verbatim>\<open>long\<close> has 4 bytes and the byte order is little-endian, this is the
  layout of section 4.1.
\<close>

lemma get_desc_long4:
  assumes "sizeof_long P = 4"
    and "\<not> big_endian P"
    and "209 \<le> length descriptor"
    and "descriptor = fst (dev_read_bytes T (dev_write T (''C'' @ ch @ '':WF? DESC'') (device s)))"
  shows "fst (get_desc T P F ch s) =
     Inr \<lparr>numDataPoints = signed_of 4 (le_nat (take 4 (drop (21 + 60) descriptor))),
          verticalGain = float_of_f32 F (of_nat (le_nat (take 4 (drop (21 + 156) descriptor)))),
          verticalOffset = float_of_f32 F (of_nat (le_nat (take 4 (drop (21 + 160) descriptor)))),
          horizInterval = float_of_f32 F (of_nat (le_nat (take 4 (drop (21 + 176) descriptor)))),
          horizOffset = float_of_f64 F (of_nat (le_nat (take 8 (drop (21 + 180) descriptor)))),
          descriptorOffset = 21\<rparr>"
  using get_desc_value [of P descriptor T ch s F] assms by (simp add: native_nat_def)

lemma desc_reply_next_field_length: "length desc_reply_next_field = 209"
  by (simp add: desc_reply_next_field_def)

text \<open>
  C3. On a platform whose C \<^verbatim>\<open>long\<close> has 8 bytes (64-bit Linux and macOS), the format
  \<^verbatim>\<open>"l"\<close> of \<^verbatim>\<open>get_desc\<close> reads 8 bytes at +60, so the field at +64 becomes the upper
  half of numDataPoints. For the 209-byte reply \<open>desc_reply_next_field\<close>, whose 4-byte
  little-endian integer at +60 is 1, \<^verbatim>\<open>get_desc\<close> returns
  numDataPoints = 4294967297; the four other fields are decoded at their offsets.
\<close>

theorem get_desc_long8_reads_next_field:
  "fst (get_desc script lp64 int_floats ''1'' (new_session ([], [desc_reply_next_field]))) =
     Inr \<lparr>numDataPoints = 4294967297, verticalGain = 2, verticalOffset = 1,
          horizInterval = 10, horizOffset = - 5, descriptorOffset = 21\<rparr> \<and>
   signed_of 4 (le_nat (take 4 (drop (21 + 60) desc_reply_next_field))) = 1"
  by (simp add: get_desc_def read_bytes_eq channel_write_eq Let_def unpack_l_def unpack_f_def
      unpack_d_def unpack_from_raw_def native_nat_def signed_of_def lp64_def int_floats_def
      script_def new_session_def desc_reply_next_field_def)

section \<open>The waveform\<close>

lemma get_waveform_trace:
  "trace (snd (get_waveform T P F ch s)) =
     trace s @
     [Write (''C'' @ ch @ '':WF? DESC''),
      ReadBytes (fst (dev_read_bytes T (dev_write T (''C'' @ ch @ '':WF? DESC'') (device s))))] @
     (case fst (get_desc T P F ch s) of
        Inl e \<Rightarrow> []
      | Inr d \<Rightarrow>
          [Write (''C'' @ ch @ '':WF? DAT2''),
           ReadBytes (fst (dev_read_bytes T (dev_write T (''C'' @ ch @ '':WF? DAT2'')
             (snd (dev_read_bytes T (dev_write T (''C'' @ ch @ '':WF? DESC'') (device s)))))))])"
proof (cases "get_desc T P F ch s")
  case (Pair r s1)
  show ?thesis
  proof (cases r)
    case (Inl e)
    with Pair show ?thesis
      unfolding get_waveform_def using get_desc_session [of T P F ch s] by simp
  next
    case (Inr d)
    with Pair show ?thesis
      unfolding get_waveform_def
      using get_desc_session [of T P F ch s]
      by (simp add: read_bytes_eq channel_write_eq Let_def split: sum.splits)
  qed
qed

lemma get_waveform_needs_desc:
  "fst (get_waveform T P F ch s) = Inr r \<Longrightarrow> \<exists>d. fst (get_desc T P F ch s) = Inr d"
  by (cases "get_desc T P F ch s")
     (auto simp add: get_waveform_def split: sum.splits)

lemma unpack_b_in_range:
  "0 \<le> n \<Longrightarrow> 0 \<le> offset \<Longrightarrow> offset + n \<le> int (length buffer) \<Longrightarrow>
   unpack_b n buffer offset = Inr (map sint (take (nat n) (drop (nat offset) buffer)))"
  by (simp add: unpack_b_def unpack_from_raw_in_range)

lemma get_waveform_value:
  assumes d: "fst (get_desc T P F ch s) = Inr d"
    and response: "response = fst (dev_read_bytes T (dev_write T (''C'' @ ch @ '':WF? DAT2'')
          (device (snd (get_desc T P F ch s)))))"
    and n: "0 \<le> numDataPoints d"
    and len: "descriptorOffset d + numDataPoints d \<le> int (length response)"
  shows "fst (get_waveform T P F ch s) =
     Inr (map (\<lambda>i. float_add F (float_mul F (float_of_int F (int i)) (horizInterval d)) (horizOffset d))
            [0..<nat (numDataPoints d)],
          map (\<lambda>point. float_sub F (float_mul F (float_of_int F point) (verticalGain d)) (verticalOffset d))
            (map sint (take (nat (numDataPoints d)) (drop 21 response))))"
proof -
  have off: "descriptorOffset d = 21" using d by (rule get_desc_offset)
  obtain s1 where g: "get_desc T P F ch s = (Inr d, s1)"
    using d by (cases "get_desc T P F ch s") auto
  have u: "unpack_b (numDataPoints d) response 21 =
        Inr (map sint (take (nat (numDataPoints d)) (drop 21 response)))"
    using unpack_b_in_range [of "numDataPoints d" 21 response] n len off by simp
  have l: "length (take (nat (numDataPoints d)) (drop 21 response)) = nat (numDataPoints d)"
    using n len off by simp
  show ?thesis
    unfolding get_waveform_def using g u l response off
    by (simp add: read_bytes_eq channel_write_eq Let_def)
qed

lemma wf_session_desc:
  "fst (get_desc script llp64 int_floats ''1'' wf_session) =
     Inr \<lparr>numDataPoints = 3, verticalGain = 2, verticalOffset = 1,
          horizInterval = 10, horizOffset = - 5, descriptorOffset = 21\<rparr>"
  by (simp add: get_desc_def read_bytes_eq channel_write_eq Let_def unpack_l_def unpack_f_def
      unpack_d_def unpack_from_raw_def native_nat_def signed_of_def llp64_def int_floats_def
      script_def new_session_def wf_session_def desc_reply_def)

lemma wf_session_response:
  "fst (dev_read_bytes script (dev_write script (''C'' @ ''1'' @ '':WF? DAT2'')
     (device (snd (get_desc script llp64 int_floats ''1'' wf_session))))) = samples_reply"
  by (simp add: get_desc_session script_def wf_session_def new_session_def)

text \<open>
  C4. When \<^verbatim>\<open>get_desc\<close> has returned the descriptor \<open>d\<close> with N = numDataPoints
  \<open>\<ge> 0\<close>, and the reply to the samples query holds at least descriptorOffset + N bytes,
  \<^verbatim>\<open>get_waveform\<close> returns two sequences of length N: for each \<open>i < N\<close>, with \<open>c\<close> the
  signed value of the byte at position descriptorOffset + i of the reply,
  voltage[i] = c * verticalGain - verticalOffset and
  time[i] = i * horizInterval + horizOffset, in the arithmetic \<open>F\<close> of the numbers.
\<close>

theorem get_waveform_scaling:
  assumes "fst (get_desc T P F ch s) = Inr d"
    and "response = fst (dev_read_bytes T (dev_write T (''C'' @ ch @ '':WF? DAT2'')
          (device (snd (get_desc T P F ch s)))))"
    and "0 \<le> numDataPoints d"
    and "descriptorOffset d + numDataPoints d \<le> int (length response)"
  shows "\<exists>timetags waveform.
     fst (get_waveform T P F ch s) = Inr (timetags, waveform) \<and>
     length timetags = nat (numDataPoints d) \<and>
     length waveform = nat (numDataPoints d) \<and>
     (\<forall>i < nat (numDataPoints d).
        waveform ! i =
          float_sub F
            (float_mul F (float_of_int F (sint (response ! (nat (descriptorOffset d) + i))))
               (verticalGain d))
            (verticalOffset d) \<and>
        timetags ! i =
          float_add F (float_mul F (float_of_int F (int i)) (horizInterval d)) (horizOffset d))"
proof -
  have off: "descriptorOffset d = 21" using assms(1) by (rule get_desc_offset)
  have len: "21 + nat (numDataPoints d) \<le> length response"
    using assms(3,4) off by simp
  show ?thesis
    using get_waveform_value [OF assms] off len by (simp add: add.commute)
qed

theorem get_waveform_scaling_witness:
  "\<exists>timetags waveform.
     fst (get_waveform script llp64 int_floats ''1'' wf_session) = Inr (timetags, waveform) \<and>
     length timetags = 3 \<and> length waveform = 3 \<and>
     waveform = [- 128 * 2 - 1, 0 * 2 - 1, 127 * 2 - 1] \<and>
     timetags = [0 * 10 + - 5, 1 * 10 + - 5, 2 * 10 + - 5]"
proof -
  have 3: "(0::int) \<le> numDataPoints \<lparr>numDataPoints = 3, verticalGain = 2::int, verticalOffset = 1,
          horizInterval = 10, horizOffset = - 5, descriptorOffset = 21\<rparr>"
    by simp
  have 4: "descriptorOffset \<lparr>numDataPoints = 3, verticalGain = 2::int, verticalOffset = 1,
          horizInterval = 10, horizOffset = - 5, descriptorOffset = 21\<rparr> +
        numDataPoints \<lparr>numDataPoints = 3, verticalGain = 2::int, verticalOffset = 1,
          horizInterval = 10, horizOffset = - 5, descriptorOffset = 21\<rparr>
        \<le> int (length samples_reply)"
    by (simp add: samples_reply_def)
  from get_waveform_scaling [OF wf_session_desc wf_session_response [symmetric] 3 4]
  obtain timetags waveform where
    r: "fst (get_waveform script llp64 int_floats ''1'' wf_session) = Inr (timetags, waveform)"
    and lt: "length timetags = 3" and lw: "length waveform = 3"
    and v: "\<forall>i<3. waveform ! i = (sint (samples_reply ! (21 + i))) * 2 - 1 \<and>
                  timetags ! i = int i * 10 + - 5"
    by (auto simp add: int_floats_def)
  have w: "waveform = [waveform ! 0, waveform ! 1, waveform ! 2]"
    using lw by (auto simp add: list_eq_iff_nth_eq less_Suc_eq eval_nat_numeral)
  have t: "timetags = [timetags ! 0, timetags ! 1, timetags ! 2]"
    using lt by (auto simp add: list_eq_iff_nth_eq less_Suc_eq eval_nat_numeral)
  have v0: "waveform ! 0 = - 128 * 2 - 1" "timetags ! 0 = 0 * 10 + - 5"
    using v [rule_format, of 0] by (simp_all add: samples_reply_def nth_append)
  have v1: "waveform ! 1 = 0 * 2 - 1" "timetags ! 1 = 1 * 10 + - 5"
    using v [rule_format, of 1] by (simp_all add: samples_reply_def nth_append)
  have v2: "waveform ! 2 = 127 * 2 - 1" "timetags ! 2 = 2 * 10 + - 5"
    using v [rule_format, of 2] by (simp_all add: samples_reply_def nth_append)
  show ?thesis
    using r lt lw w t v0 v1 v2 by (intro exI [of _ timetags] exI [of _ waveform]) simp
qed

text \<open>
  C7. Whatever the instrument and whatever the outcome, \<^verbatim>\<open>get_waveform\<close> first writes
  the descriptor query and reads its reply; the samples query and its read follow, in
  this order, exactly when \<^verbatim>\<open>get_desc\<close> returned a descriptor. Nothing else goes over
  the transport, and a call that returns a waveform has made all four steps.
\<close>

theorem get_waveform_sequencing:
  "let desc = ''C'' @ ch @ '':WF? DESC'';
       dat2 = ''C'' @ ch @ '':WF? DAT2'';
       (b1, dev1) = dev_read_bytes T (dev_write T desc (device s));
       b2 = fst (dev_read_bytes T (dev_write T dat2 dev1))
   in trace (snd (get_waveform T P F ch s)) =
        trace s @ [Write desc, ReadBytes b1] @
        (case fst (get_desc T P F ch s) of
           Inl e \<Rightarrow> []
         | Inr d \<Rightarrow> [Write dat2, ReadBytes b2]) \<and>
      (\<forall>r. fst (get_waveform T P F ch s) = Inr r \<longrightarrow>
           trace (snd (get_waveform T P F ch s)) =
             trace s @ [Write desc, ReadBytes b1, Write dat2, ReadBytes b2])"
proof (cases "fst (get_desc T P F ch s)")
  case (Inl e)
  then have "fst (get_waveform T P F ch s) \<noteq> Inr r" for r
    using get_waveform_needs_desc [of T P F ch s r] by auto
  with Inl show ?thesis
    using get_waveform_trace [of T P F ch s] by (simp add: Let_def split_beta)
next
  case (Inr d)
  then show ?thesis
    using get_waveform_trace [of T P F ch s] by (simp add: Let_def split_beta)
qed

theorem get_waveform_sequencing_witness:
  "trace (snd (get_waveform script llp64 int_floats ''1'' wf_session)) =
     [Write ''C1:WF? DESC'', ReadBytes desc_reply, Write ''C1:WF? DAT2'', ReadBytes samples_reply] \<and>
   trace (snd (get_waveform script llp64 int_floats ''1'' short_session)) =
     [Write ''C1:WF? DESC'', ReadBytes (replicate 100 0)]"
proof -
  have short: "fst (get_desc script llp64 int_floats ''1'' short_session) = Inl StructError"
    by (simp add: get_desc_def read_bytes_eq channel_write_eq Let_def unpack_l_def unpack_f_def
        unpack_from_raw_def llp64_def script_def new_session_def short_session_def)
  show ?thesis
    using get_waveform_sequencing [of "''1''" script wf_session llp64 int_floats]
      get_waveform_sequencing [of "''1''" script short_session llp64 int_floats]
      wf_session_desc short
    by (simp add: Let_def script_def wf_session_def short_session_def new_session_def)
qed

section \<open>Reading the trigger configuration\<close>

lemma channel_ask_eq:
  "channel_ask T ch [Lit c] s =
     (fst (dev_read T (dev_write T c (device s))),
      s\<lparr>device := snd (dev_read T (dev_write T c (device s))),
        trace := trace s @ [Write c, Read (fst (dev_read T (dev_write T c (device s))))]\<rparr>)"
  by (simp add: channel_ask_def channel_write_eq transport_read_def split_beta)


lemma dict_keys_set: "set (map fst (dict_set k v d)) = insert k (set (map fst d))"
  by (simp add: dict_set_def dom_update)

lemma dict_update_Nil: "dict_update d [] = d"
  by (simp add: dict_update_def)

lemma dict_update_Cons: "dict_update d ((k, v) # other) = dict_update (dict_set k v d) other"
  by (simp add: dict_update_def)

lemma get_triggerConfig_returns:
  assumes "get_triggerConfig T F s = (Inr r, s')"
  shows "\<exists>r1 r2 r3 r4 r5 v d1 d2.
     trace s' = trace s @
       [Write ''TRSE?'', Read r1, Write ''TRLV?'', Read r2, Write ''TRSL?'', Read r3,
        Write ''TRMD?'', Read r4, Write ''TRCP?'', Read r5] \<and>
     r = triggerConfDict s \<and> triggerConfDict s' = triggerConfDict s \<and>
     trigger_id s' = trigger_id s \<and>
     trigger_setup_preprocess_reply r1 = Inr v \<and>
     trigger_setup_get_process (split_all CHR '','' v) = Inr d1 \<and>
     trigger_level_get_process F r2 = Inr d2 \<and>
     heap s' = (heap s)(r :=
       dict_update (dict_update (dict_update (dict_update (dict_update (heap s r) d1) d2)
         (trigger_slope_get_process r3)) (trigger_mode_get_process r4))
         (trigger_coupling_get_process r5))"
  using assms
  by (auto simp add: get_triggerConfig_def trigger_setup_def trigger_level_def trigger_slope_def
      trigger_mode_def trigger_coupling_def channel_ask_eq cache_update_def Let_def
      split: sum.splits prod.splits)

lemma trigger_setup_get_process_keys:
  "trigger_setup_get_process v = Inr d \<Longrightarrow>
   d = [(''type'', Str (v ! 0)), (''source'', Str (v ! 2)),
        (''hold_type'', Str (v ! 4)), (''hold_value1'', Str (v ! 6))]"
  by (auto simp add: trigger_setup_get_process_def py_index_def split: if_splits)

lemma trigger_level_get_process_keys:
  "trigger_level_get_process F v = Inr d \<Longrightarrow>
   \<exists>x. float_parse F (drop_last2 (last (split1 CHR '' '' v))) = Some x \<and>
       d = [(''source'', Str (hd (split1 CHR '':'' v))), (''level'', Num x)]"
  by (auto simp add: trigger_level_get_process_def split: option.splits)




section \<open>Writing the trigger configuration\<close>

lemma get_triggerConfig_frame:
  "triggerConfDict (snd (get_triggerConfig T F s)) = triggerConfDict s \<and>
   trigger_id (snd (get_triggerConfig T F s)) = trigger_id s"
  by (simp add: get_triggerConfig_def trigger_setup_def trigger_level_def trigger_slope_def
      trigger_mode_def trigger_coupling_def channel_ask_eq cache_update_def Let_def
      split: sum.splits prod.splits)

lemma get_triggerConfig_ref:
  "fst (get_triggerConfig T F s) = Inr r \<Longrightarrow> r = triggerConfDict s"
  by (cases "get_triggerConfig T F s") (auto dest: get_triggerConfig_returns)

lemma get_triggerConfig_writes:
  assumes "fst (get_triggerConfig T F s) = Inr r"
  shows "writes (trace (snd (get_triggerConfig T F s))) = writes (trace s) @ queries"
proof -
  obtain s' where "get_triggerConfig T F s = (Inr r, s')"
    using assms by (cases "get_triggerConfig T F s") auto
  from get_triggerConfig_returns [OF this] this show ?thesis
    by (auto simp add: writes_append queries_def)
qed

text \<open>
  Whatever the outcome of a read, only queries are written: it fails after TRSE?, or
  after TRSE? and TRLV?, or it returns after all five.
\<close>

lemma get_triggerConfig_outcomes:
  "(\<exists>e. fst (get_triggerConfig T F s) = Inl e \<and>
        writes (trace (snd (get_triggerConfig T F s))) = writes (trace s) @ take 1 queries) \<or>
   (\<exists>e. fst (get_triggerConfig T F s) = Inl e \<and>
        writes (trace (snd (get_triggerConfig T F s))) = writes (trace s) @ take 2 queries) \<or>
   (fst (get_triggerConfig T F s) = Inr (triggerConfDict s) \<and>
        writes (trace (snd (get_triggerConfig T F s))) = writes (trace s) @ queries)"
  by (simp add: get_triggerConfig_def trigger_setup_def trigger_level_def trigger_slope_def
      trigger_mode_def trigger_coupling_def channel_ask_eq cache_update_def Let_def
      writes_append queries_def
      split: sum.splits prod.splits)

lemma write_commands_returns:
  "write_commands T F r gs s = (Inr u, s') \<Longrightarrow>
   trace s' = trace s @ map (\<lambda>g. Write (command_text F (py_str F (trigger_id s)) (heap s r) g)) gs \<and>
   heap s' = heap s \<and> trigger_id s' = trigger_id s \<and> triggerConfDict s' = triggerConfDict s"
proof (induction gs arbitrary: s)
  case Nil
  then show ?case by simp
next
  case (Cons g gs)
  then obtain command where c: "set_command F g (heap s r) = Inr command"
    by (auto split: sum.splits)
  with Cons.prems have
    "write_commands T F r gs (channel_write T (py_str F (trigger_id s)) command s) = (Inr u, s')"
    by simp
  from Cons.IH [OF this] c show ?case
    by (simp add: channel_write_eq command_text_def)
qed

lemma write_commands_frame:
  "heap (snd (write_commands T F r gs s)) = heap s \<and>
   trigger_id (snd (write_commands T F r gs s)) = trigger_id s \<and>
   triggerConfDict (snd (write_commands T F r gs s)) = triggerConfDict s"
proof (induction gs arbitrary: s)
  case Nil
  then show ?case by simp
next
  case (Cons g gs)
  show ?case
  proof (cases "set_command F g (heap s r)")
    case (Inl e)
    then show ?thesis by simp
  next
    case (Inr command)
    then show ?thesis
      using Cons.IH [of "channel_write T (py_str F (trigger_id s)) command s"]
      by (simp add: channel_write_eq)
  qed
qed

text \<open>
  The flag of \<^verbatim>\<open>set_triggerConfig\<close>. The reference \<open>r\<close> kept in the local variable
  and the reference assigned to \<^verbatim>\<open>self.triggerConfDict\<close> after the second read are the
  same reference, so the comparison is that of a dictionary object with itself: a call
  that returns, returns \<^verbatim>\<open>True\<close>.
\<close>

lemma set_triggerConfig_flag:
  assumes "fst (set_triggerConfig T F kwargs s) = Inr b"
  shows "b"
proof -
  obtain r1 s1 where g1: "get_triggerConfig T F s = (r1, s1)"
    by (cases "get_triggerConfig T F s")
  show ?thesis
  proof (cases r1)
    case (Inl e)
    with g1 assms show ?thesis by (simp add: set_triggerConfig_def)
  next
    case (Inr r)
    have r: "r = triggerConfDict s" "triggerConfDict s1 = triggerConfDict s"
      using get_triggerConfig_ref [of T F s r] get_triggerConfig_frame [of T F s] g1 Inr
      by simp_all
    define s2 where "s2 = (if dict_get kwargs ''source'' \<noteq> PNone
                     then s1\<lparr>trigger_id := dict_get kwargs ''source''\<rparr> else s1)"
    have s2: "triggerConfDict s2 = r" using r by (simp add: s2_def)
    show ?thesis
    proof (cases "changedValues F (heap s2 r) kwargs")
      case (Inl e)
      with g1 Inr assms show ?thesis
        by (simp add: set_triggerConfig_def s2_def Let_def)
    next
      case changed: (Inr changed)
      define s3 where "s3 = apply_changes r kwargs changed s2"
      obtain r4 s4 where w: "write_commands T F r (processToChange changed) s3 = (r4, s4)"
        by (cases "write_commands T F r (processToChange changed) s3")
      have s4: "triggerConfDict s4 = r"
        using write_commands_frame [of T F r "processToChange changed" s3] w s2
        by (simp add: s3_def apply_changes_def)
      obtain r5 s5 where g2: "get_triggerConfig T F s4 = (r5, s5)"
        by (cases "get_triggerConfig T F s4")
      have r5: "r5 = Inr r' \<Longrightarrow> r' = r" for r'
        using get_triggerConfig_ref [of T F s4 r'] g2 s4 by simp
      from assms g1 Inr changed w g2 r5 show ?thesis
        by (auto simp add: set_triggerConfig_def s2_def [symmetric] s3_def [symmetric] Let_def
            dict_eq_ref_def split: sum.splits)
    qed
  qed
qed

lemmas run_defs =
  set_triggerConfig_def get_triggerConfig_def trigger_setup_def trigger_level_def
  trigger_slope_def trigger_mode_def trigger_coupling_def channel_ask_eq channel_write_eq
  cache_update_def Let_def trigger_setup_preprocess_reply_def trigger_setup_get_process_def
  trigger_level_get_process_def trigger_slope_get_process_def trigger_mode_get_process_def
  trigger_coupling_get_process_def py_index_def split1_def drop_last2_def
  dict_update_def dict_set_def dict_get_def dict_item_def dict_eq_ref_def
  processToChange_def setValues_def apply_changes_def set_command_def
  text_floats_def script_def new_session_def replies_def

text \<open>
  C1. A new driver faces an instrument whose mode is AUTO and which ignores what is
  written to it. \<^verbatim>\<open>set_triggerConfig(mode="NORM")\<close> writes the five queries, the
  command \<^verbatim>\<open>TRMD NORM\<close> and the five queries again; the second read reports the mode
  AUTO, which is then the mode in the cached dictionary, and the call returns
  \<^verbatim>\<open>True\<close>.
\<close>

theorem set_triggerConfig_ignored_change_returns_True:
  "fst (set_triggerConfig script text_floats [(''mode'', Str ''NORM'')] ignoring_session) = Inr True \<and>
   writes (trace (snd (set_triggerConfig script text_floats [(''mode'', Str ''NORM'')]
     ignoring_session))) = queries @ [''TRMD NORM''] @ queries \<and>
   dict_get (heap (snd (set_triggerConfig script text_floats [(''mode'', Str ''NORM'')]
     ignoring_session)) 0) ''mode'' = Str ''AUTO''"
  by (simp add: run_defs ignoring_session_def queries_def)

text \<open>
  C2. A new driver (the trigger channel's id is \<^verbatim>\<open>""\<close>) faces an instrument whose
  trigger source is C1. \<^verbatim>\<open>set_triggerConfig(type="SLEW")\<close> writes one setup command,
  between the two reads, and the source field of that command is blank.
\<close>

theorem set_triggerConfig_type_only_blank_source:
  "fst (set_triggerConfig script text_floats [(''type'', Str ''SLEW'')] adopting_session) = Inr True \<and>
   writes (trace (snd (set_triggerConfig script text_floats [(''type'', Str ''SLEW'')]
     adopting_session))) = queries @ [''TRSE SLEW,SR,,HT,TI,HV,100NS''] @ queries \<and>
   dict_get (heap (snd (get_triggerConfig script text_floats adopting_session)) 0) ''source'' =
     Str ''C1''"
  by (simp add: run_defs adopting_session_def queries_def)

section \<open>Writes that change nothing\<close>

lemma session_id_trace:
  "trace (s\<lparr>trigger_id := v\<rparr>) = trace s"
  by simp

lemma processToChange_Nil: "processToChange [] = []"
  by (simp add: processToChange_def setValues_def)

lemma apply_changes_Nil: "apply_changes r kwargs [] s = s"
  by (simp add: apply_changes_def)

text \<open>
  When no key has changed, \<^verbatim>\<open>set_triggerConfig\<close> is its two reads: no set command
  lies between them.
\<close>

lemma set_triggerConfig_unchanged:
  assumes "get_triggerConfig T F s = (Inr r, s1)"
    and "changedValues F (heap s1 r) kwargs = Inr []"
  shows "\<exists>n. writes (trace (snd (set_triggerConfig T F kwargs s))) =
           writes (trace s) @ queries @ take n queries \<and>
         (\<forall>b. fst (set_triggerConfig T F kwargs s) = Inr b \<longrightarrow>
           writes (trace (snd (set_triggerConfig T F kwargs s))) =
             writes (trace s) @ queries @ queries)"
proof -
  define s2 where "s2 = (if dict_get kwargs ''source'' \<noteq> PNone
                     then s1\<lparr>trigger_id := dict_get kwargs ''source''\<rparr> else s1)"
  have h2: "heap s2 = heap s1" and t2: "trace s2 = trace s1"
    by (simp_all add: s2_def)
  have w1: "writes (trace s1) = writes (trace s) @ queries"
    using get_triggerConfig_writes [of T F s r] assms(1) by simp
  obtain r5 s5 where g2: "get_triggerConfig T F s2 = (r5, s5)"
    by (cases "get_triggerConfig T F s2")
  have set_eq: "set_triggerConfig T F kwargs s =
      (case r5 of Inl e \<Rightarrow> (Inl e, s5)
       | Inr r' \<Rightarrow> (Inr (dict_eq_ref F (heap s5) r' r), s5\<lparr>triggerConfDict := r'\<rparr>))"
    using assms g2 h2
    by (simp add: set_triggerConfig_def s2_def [symmetric] Let_def processToChange_Nil
        apply_changes_Nil split: sum.splits)
  from get_triggerConfig_outcomes [of T F s2] g2
  consider (one) e where "r5 = Inl e" "writes (trace s5) = writes (trace s2) @ take 1 queries"
    | (two) e where "r5 = Inl e" "writes (trace s5) = writes (trace s2) @ take 2 queries"
    | (all) "r5 = Inr (triggerConfDict s2)" "writes (trace s5) = writes (trace s2) @ queries"
    by auto
  then show ?thesis
  proof cases
    case one
    with set_eq t2 w1 show ?thesis by (intro exI [of _ 1]) simp
  next
    case two
    with set_eq t2 w1 show ?thesis by (intro exI [of _ 2]) simp
  next
    case all
    with set_eq t2 w1 show ?thesis by (intro exI [of _ 5]) (simp add: queries_def)
  qed
qed

lemma length_queries: "length queries = 5"
  by (simp add: queries_def)

lemma take_queries_prefix:
  "n \<le> 5 \<Longrightarrow> take n (queries @ queries) = take n queries"
  using length_queries by simp

lemma queries_take_prefix:
  "take (5 + n) (queries @ queries) = queries @ take n queries"
  using length_queries by simp

text \<open>
  C6. For the empty desired configuration, whatever the instrument and the outcome, the
  commands written by \<^verbatim>\<open>set_triggerConfig\<close> are a prefix of the five queries of the
  first read followed by the five queries of the second: no set command is written.
  A call that returns has written exactly these ten queries and returns \<^verbatim>\<open>True\<close>.
\<close>

theorem set_triggerConfig_noop:
  "(\<exists>n. writes (trace (snd (set_triggerConfig T F [] s))) =
          writes (trace s) @ take n (queries @ queries)) \<and>
   (\<forall>b. fst (set_triggerConfig T F [] s) = Inr b \<longrightarrow>
      b \<and> writes (trace (snd (set_triggerConfig T F [] s))) =
            writes (trace s) @ queries @ queries)"
proof -
  obtain r1 s1 where g1: "get_triggerConfig T F s = (r1, s1)"
    by (cases "get_triggerConfig T F s")
  have flag: "fst (set_triggerConfig T F [] s) = Inr b \<Longrightarrow> b" for b
    by (rule set_triggerConfig_flag)
  show ?thesis
  proof (cases r1)
    case (Inl e)
    then have set_eq: "set_triggerConfig T F [] s = (Inl e, s1)"
      using g1 by (simp add: set_triggerConfig_def)
    from get_triggerConfig_outcomes [of T F s] g1 Inl
    have "writes (trace s1) = writes (trace s) @ take 1 queries \<or>
          writes (trace s1) = writes (trace s) @ take 2 queries"
      by auto
    then have "\<exists>n. writes (trace s1) = writes (trace s) @ take n (queries @ queries)"
    proof
      assume "writes (trace s1) = writes (trace s) @ take 1 queries"
      then show ?thesis
        using take_queries_prefix [of 1] by (intro exI [of _ 1]) simp
    next
      assume "writes (trace s1) = writes (trace s) @ take 2 queries"
      then show ?thesis
        using take_queries_prefix [of 2] by (intro exI [of _ 2]) simp
    qed
    with set_eq show ?thesis by simp
  next
    case (Inr r)
    with g1 have g: "get_triggerConfig T F s = (Inr r, s1)" by simp
    have c: "changedValues F (heap s1 r) [] = Inr []" by simp
    from set_triggerConfig_unchanged [OF g c]
    obtain n where
      n: "writes (trace (snd (set_triggerConfig T F [] s))) =
            writes (trace s) @ queries @ take n queries"
      and ok: "\<forall>b. fst (set_triggerConfig T F [] s) = Inr b \<longrightarrow>
           writes (trace (snd (set_triggerConfig T F [] s))) =
             writes (trace s) @ queries @ queries"
      by blast
    have "writes (trace (snd (set_triggerConfig T F [] s))) =
            writes (trace s) @ take (5 + n) (queries @ queries)"
      using n queries_take_prefix [of n] by simp
    with ok flag show ?thesis by blast
  qed
qed

theorem set_triggerConfig_noop_witness:
  "fst (set_triggerConfig script text_floats [] ignoring_session) = Inr True \<and>
   writes (trace (snd (set_triggerConfig script text_floats [] ignoring_session))) =
     [''TRSE?'', ''TRLV?'', ''TRSL?'', ''TRMD?'', ''TRCP?'',
      ''TRSE?'', ''TRLV?'', ''TRSL?'', ''TRMD?'', ''TRCP?'']"
proof -
  have r: "fst (set_triggerConfig script text_floats [] ignoring_session) = Inr True"
    by (simp add: run_defs ignoring_session_def)
  have "trace ignoring_session = []"
    by (simp add: ignoring_session_def new_session_def)
  with set_triggerConfig_noop [of script text_floats ignoring_session, THEN conjunct2,
      rule_format, OF r] r
  show ?thesis
    by (simp add: queries_def)
qed

section \<open>Unknown keys\<close>

lemma changedValues_error:
  "changedValues F conf kwargs = Inl e \<Longrightarrow> e = KeyError"
  by (induction kwargs arbitrary: e)
     (auto simp add: dict_item_def split: option.splits sum.splits)

lemma changedValues_KeyError:
  "k \<in> set (map fst kwargs) \<Longrightarrow> k \<notin> set (map fst conf) \<Longrightarrow>
   changedValues F conf kwargs = Inl KeyError"
proof (induction kwargs)
  case Nil
  then show ?case by simp
next
  case (Cons kv kwargs)
  obtain key v where kv: "kv = (key, v)" by (cases kv)
  show ?case
  proof (cases "dict_item conf key")
    case (Inl e)
    then show ?thesis
      using kv by (auto simp add: dict_item_def split: option.splits)
  next
    case (Inr c)
    then have "key \<in> set (map fst conf)"
      by (force simp add: dict_item_def split: option.splits dest: map_of_SomeD)
    with Cons.prems kv have "k \<in> set (map fst kwargs)" by auto
    from Cons.IH [OF this Cons.prems(2)] Inr kv show ?thesis by simp
  qed
qed

lemma dict_set_dom: "fst ` set (dict_set k v d) = insert k (fst ` set d)"
  by (simp add: dict_set_def dom_update)

lemma dict_update_keys:
  "fst ` set (dict_update d other) = fst ` set d \<union> fst ` set other"
proof (induction other arbitrary: d)
  case Nil
  then show ?case by (simp add: dict_update_Nil)
next
  case (Cons kv other)
  obtain k v where kv: "kv = (k, v)" by (cases kv)
  show ?case
    unfolding kv dict_update_Cons Cons.IH by (simp add: dict_set_dom)
qed

lemma config_keys_union:
  "set [''type'', ''source'', ''hold_type'', ''hold_value1''] \<union> set [''source'', ''level''] \<union>
   set [''source'', ''slope''] \<union> set [''mode''] \<union> set [''source'', ''coupling''] =
   set config_keys"
  unfolding config_keys_def by (simp add: insert_commute)

lemma get_triggerConfig_keys:
  assumes "get_triggerConfig T F s = (Inr r, s')"
  shows "set (map fst (heap s' r)) = set (map fst (heap s r)) \<union> set config_keys"
proof -
  from get_triggerConfig_returns [OF assms]
  obtain r3 r4 r5 v r2 and d1 d2 :: "'b dict" where
    d1: "trigger_setup_get_process (split_all CHR '','' v) = Inr d1"
    and d2: "trigger_level_get_process F r2 = Inr d2"
    and h: "heap s' = (heap s)(r :=
       dict_update (dict_update (dict_update (dict_update (dict_update (heap s r) d1) d2)
         (trigger_slope_get_process r3)) (trigger_mode_get_process r4))
         (trigger_coupling_get_process r5))"
    by blast
  define d3 :: "'b dict" where "d3 = trigger_slope_get_process r3"
  define d4 :: "'b dict" where "d4 = trigger_mode_get_process r4"
  define d5 :: "'b dict" where "d5 = trigger_coupling_get_process r5"
  have k1: "map fst d1 = [''type'', ''source'', ''hold_type'', ''hold_value1'']"
    using trigger_setup_get_process_keys [OF d1] by simp
  have k2: "map fst d2 = [''source'', ''level'']"
    using trigger_level_get_process_keys [OF d2] by auto
  have k3: "map fst d3 = [''source'', ''slope'']"
    by (simp add: d3_def trigger_slope_get_process_def)
  have k4: "map fst d4 = [''mode'']"
    by (simp add: d4_def trigger_mode_get_process_def)
  have k5: "map fst d5 = [''source'', ''coupling'']"
    by (simp add: d5_def trigger_coupling_get_process_def)
  have "heap s' r = dict_update (dict_update (dict_update (dict_update (dict_update (heap s r) d1) d2) d3) d4) d5"
    unfolding h d3_def d4_def d5_def by simp
  then have "fst ` set (heap s' r) =
      fst ` set (heap s r) \<union>
      (fst ` set d1 \<union> fst ` set d2 \<union> fst ` set d3 \<union> fst ` set d4 \<union> fst ` set d5)"
    by (simp only: dict_update_keys Un_assoc)
  then have "set (map fst (heap s' r)) =
      set (map fst (heap s r)) \<union>
      (set (map fst d1) \<union> set (map fst d2) \<union> set (map fst d3) \<union> set (map fst d4) \<union>
       set (map fst d5))"
    by (simp only: set_map)
  then show ?thesis
    unfolding k1 k2 k3 k4 k5 config_keys_union .
qed

end
